theory Spec2Isabelle
  imports Main "HOL-Library.Word"
begin

section \<open>gorm-plus: a generic repository over a query-building collaborator\<close>

text \<open>
  The package \<^verbatim>\<open>gormplus\<close> (file \<^verbatim>\<open>gorm_plus.go\<close>) wraps a handle of the GORM library.
  GORM itself is not part of the package: it is taken here as a parameter, a record of
  the functions the package calls. A value of type \<open>'q\<close> is a \<^verbatim>\<open>*gorm.DB\<close> (a handle
  or a query under construction), \<open>'s\<close> is the state of the database behind it,
  \<open>'row\<close> is the entity type \<^verbatim>\<open>T\<close>, \<open>'v\<close> stands for Go's \<^verbatim>\<open>any\<close> and \<open>'ctx\<close> for
  \<^verbatim>\<open>context.Context\<close>.

  Go's \<^verbatim>\<open>int\<close> is taken at 64 bits (as on every 64-bit target), so \<^verbatim>\<open>int\<close> and
  \<^verbatim>\<open>int64\<close> are both \<open>64 word\<close>: \<open>+\<close>, \<open>-\<close> and \<open>*\<close> wrap around as in Go, and the
  comparisons of the source are the signed ones, \<open>\<le>s\<close> and \<open><s\<close>.
\<close>

type_synonym go_int = "64 word"
type_synonym int64 = "64 word"

subsection \<open>Errors\<close>

text \<open>
  Errors produced by the collaborator: the distinguished \<^verbatim>\<open>gorm.ErrRecordNotFound\<close>,
  \<^verbatim>\<open>gorm.ErrMissingWhereClause\<close>, any other error (named by its message), and an
  error wrapping another one (\<^verbatim>\<open>fmt.Errorf("...: %w", err)\<close>).
\<close>

datatype gorm_error =
    ErrRecordNotFound
  | ErrMissingWhereClause
  | ErrOther string
  | Wrapped string gorm_error

text \<open>\<^verbatim>\<open>errors.Is(err, target)\<close> for a comparable target: walk the chain of wrapped errors.\<close>

fun errors_Is :: "gorm_error \<Rightarrow> gorm_error \<Rightarrow> bool" where
  "errors_Is (Wrapped m e) target = (Wrapped m e = target \<or> errors_Is e target)"
| "errors_Is e target = (e = target)"

text \<open>
  An error value returned by the package: one of its four sentinel values (lines 16-29
  of the source), or a value that came from the collaborator, passed on as it is. The
  sentinels are values of the package itself; the collaborator does not produce them.
\<close>

datatype error =
    ErrInvalidType
  | ErrNotFound
  | ErrTxRequired
  | ErrDangerous
  | Collaborator gorm_error

subsection \<open>The collaborator\<close>

datatype clause = Locking string

record ('q, 'ctx, 's, 'row, 'v) gorm =
  db_Session :: "'q \<Rightarrow> 'q"
  db_WithContext :: "'ctx \<Rightarrow> 'q \<Rightarrow> 'q"
  db_Model :: "'q \<Rightarrow> 'q"
  db_Limit :: "go_int \<Rightarrow> 'q \<Rightarrow> 'q"
  db_Offset :: "go_int \<Rightarrow> 'q \<Rightarrow> 'q"
  db_Clauses :: "clause \<Rightarrow> 'q \<Rightarrow> 'q"
  db_Update :: "string \<Rightarrow> 'v \<Rightarrow> 'q \<Rightarrow> 's \<Rightarrow> gorm_error option \<times> 's"
  db_Updates :: "'v \<Rightarrow> 'q \<Rightarrow> 's \<Rightarrow> gorm_error option \<times> 's"
  db_Delete :: "'q \<Rightarrow> 's \<Rightarrow> gorm_error option \<times> 's"
  db_CreateInBatches :: "'row list \<Rightarrow> go_int \<Rightarrow> 'q \<Rightarrow> 's \<Rightarrow> gorm_error option \<times> 's"
  db_First :: "'row \<Rightarrow> 'q \<Rightarrow> 's \<Rightarrow> ('row \<times> gorm_error option) \<times> 's"
  db_Find :: "'q \<Rightarrow> 's \<Rightarrow> ('row list \<times> gorm_error option) \<times> 's"
  db_Count :: "'q \<Rightarrow> 's \<Rightarrow> (int64 \<times> gorm_error option) \<times> 's"

text \<open>
  The builder functions (\<open>db_Session\<close> to \<open>db_Clauses\<close>) return a new query and do not
  reach the database. The finishers (\<open>db_Update\<close> to \<open>db_Count\<close>) run a statement:
  they take the database state and return the \<^verbatim>\<open>Error\<close> field of the result, what
  they wrote through their destination pointer, and the new state. \<open>db_First\<close> takes
  the value its destination holds before the call.

  The world a repository operation runs in is the database state together with a
  ghost trace of the finishers executed so far, each with the query it ran on.
\<close>

datatype ('q, 'row, 'v) call =
    CallUpdate 'q string 'v
  | CallUpdates 'q 'v
  | CallDelete 'q
  | CallCreateInBatches 'q "'row list" go_int
  | CallFirst 'q
  | CallFind 'q
  | CallCount 'q

record ('s, 'q, 'row, 'v) world =
  store :: 's
  calls :: "('q, 'row, 'v) call list"

definition exec_Update ::
  "('q, 'ctx, 's, 'row, 'v) gorm \<Rightarrow> 'q \<Rightarrow> string \<Rightarrow> 'v \<Rightarrow> ('s, 'q, 'row, 'v) world
    \<Rightarrow> gorm_error option \<times> ('s, 'q, 'row, 'v) world" where
  "exec_Update c q column val w =
     (case db_Update c column val q (store w) of
        (e, s') \<Rightarrow> (e, \<lparr>store = s', calls = calls w @ [CallUpdate q column val]\<rparr>))"

definition exec_Updates ::
  "('q, 'ctx, 's, 'row, 'v) gorm \<Rightarrow> 'q \<Rightarrow> 'v \<Rightarrow> ('s, 'q, 'row, 'v) world
    \<Rightarrow> gorm_error option \<times> ('s, 'q, 'row, 'v) world" where
  "exec_Updates c q updates w =
     (case db_Updates c updates q (store w) of
        (e, s') \<Rightarrow> (e, \<lparr>store = s', calls = calls w @ [CallUpdates q updates]\<rparr>))"

definition exec_Delete ::
  "('q, 'ctx, 's, 'row, 'v) gorm \<Rightarrow> 'q \<Rightarrow> ('s, 'q, 'row, 'v) world
    \<Rightarrow> gorm_error option \<times> ('s, 'q, 'row, 'v) world" where
  "exec_Delete c q w =
     (case db_Delete c q (store w) of
        (e, s') \<Rightarrow> (e, \<lparr>store = s', calls = calls w @ [CallDelete q]\<rparr>))"

definition exec_CreateInBatches ::
  "('q, 'ctx, 's, 'row, 'v) gorm \<Rightarrow> 'q \<Rightarrow> 'row list \<Rightarrow> go_int \<Rightarrow> ('s, 'q, 'row, 'v) world
    \<Rightarrow> gorm_error option \<times> ('s, 'q, 'row, 'v) world" where
  "exec_CreateInBatches c q ents sz w =
     (case db_CreateInBatches c ents sz q (store w) of
        (e, s') \<Rightarrow> (e, \<lparr>store = s', calls = calls w @ [CallCreateInBatches q ents sz]\<rparr>))"

definition exec_First ::
  "('q, 'ctx, 's, 'row, 'v) gorm \<Rightarrow> 'q \<Rightarrow> 'row \<Rightarrow> ('s, 'q, 'row, 'v) world
    \<Rightarrow> ('row \<times> gorm_error option) \<times> ('s, 'q, 'row, 'v) world" where
  "exec_First c q dest w =
     (case db_First c dest q (store w) of
        (res, s') \<Rightarrow> (res, \<lparr>store = s', calls = calls w @ [CallFirst q]\<rparr>))"

definition exec_Find ::
  "('q, 'ctx, 's, 'row, 'v) gorm \<Rightarrow> 'q \<Rightarrow> ('s, 'q, 'row, 'v) world
    \<Rightarrow> ('row list \<times> gorm_error option) \<times> ('s, 'q, 'row, 'v) world" where
  "exec_Find c q w =
     (case db_Find c q (store w) of
        (res, s') \<Rightarrow> (res, \<lparr>store = s', calls = calls w @ [CallFind q]\<rparr>))"

definition exec_Count ::
  "('q, 'ctx, 's, 'row, 'v) gorm \<Rightarrow> 'q \<Rightarrow> ('s, 'q, 'row, 'v) world
    \<Rightarrow> (int64 \<times> gorm_error option) \<times> ('s, 'q, 'row, 'v) world" where
  "exec_Count c q w =
     (case db_Count c q (store w) of
        (res, s') \<Rightarrow> (res, \<lparr>store = s', calls = calls w @ [CallCount q]\<rparr>))"

subsection \<open>Repo, Scope, PageResult\<close>

text \<open>
  \<^verbatim>\<open>type Repo[T any] struct { db *gorm.DB }\<close>. The type parameter \<^verbatim>\<open>T\<close> is
  represented by what the code uses of it: the kind \<^verbatim>\<open>reflect\<close> reports for it and
  its zero value (\<^verbatim>\<open>var zero T\<close>); a repository keeps the zero value of its \<^verbatim>\<open>T\<close>.
\<close>

datatype Kind =
    Bool | Int | Int8 | Int16 | Int32 | Int64
  | Uint | Uint8 | Uint16 | Uint32 | Uint64 | Uintptr
  | Float32 | Float64 | Complex64 | Complex128
  | Array | Chan | Func | Interface | Map | Pointer | Slice | String | Struct
  | UnsafePointer

record 'row TypeParam =
  kindT :: Kind
  zeroT :: 'row

record ('q, 'row) Repo =
  db :: 'q
  zero :: 'row

text \<open>
  \<^verbatim>\<open>type Scope func(*gorm.DB) *gorm.DB\<close>; a function value in Go may be \<^verbatim>\<open>nil\<close>,
  which is \<open>None\<close>.
\<close>

type_synonym 'q Scope = "('q \<Rightarrow> 'q) option"

record 'row PageResult =
  Items :: "'row list"
  Total :: int64
  PageNo :: go_int
  PageSize :: go_int
  HasNext :: bool

text \<open>The zero value \<^verbatim>\<open>PageResult[T]{}\<close>.\<close>

abbreviation PageResult_zero :: "'row PageResult" where
  "PageResult_zero \<equiv> \<lparr>Items = [], Total = 0, PageNo = 0, PageSize = 0, HasNext = False\<rparr>"

text \<open>A function that may panic returns \<open>Panic\<close> or \<open>Return\<close> of its results.\<close>

datatype 'a outcome = Panic | Return 'a

subsection \<open>NewRepo\<close>

text \<open>
  \<^verbatim>\<open>reflect.TypeOf(zero)\<close> for \<^verbatim>\<open>var zero T\<close>: the argument is converted to
  \<^verbatim>\<open>any\<close>. When \<^verbatim>\<open>T\<close> is an interface type its zero value is the nil interface and
  \<^verbatim>\<open>TypeOf\<close> returns a nil \<^verbatim>\<open>reflect.Type\<close> (\<open>None\<close>); otherwise it returns the
  type \<^verbatim>\<open>T\<close>, here its kind. Calling \<^verbatim>\<open>Kind()\<close> on the nil \<^verbatim>\<open>reflect.Type\<close> panics.
\<close>

definition reflect_TypeOf_zero :: "'row TypeParam \<Rightarrow> Kind option" where
  "reflect_TypeOf_zero T = (if kindT T = Interface then None else Some (kindT T))"

definition NewRepo ::
  "('q, 'ctx, 's, 'row, 'v) gorm \<Rightarrow> 'row TypeParam \<Rightarrow> 'q
    \<Rightarrow> (('q, 'row) Repo option \<times> error option) outcome" where
  "NewRepo c T d =
     (case reflect_TypeOf_zero T of
        None \<Rightarrow> Panic
      | Some k \<Rightarrow>
          if k = Pointer then Return (None, Some ErrInvalidType)
          else if k \<noteq> Struct then Return (None, Some ErrInvalidType)
          else Return (Some \<lparr>db = db_Session c d, zero = zeroT T\<rparr>, None))"

subsection \<open>Scopes and the base query\<close>

definition Limit :: "('q, 'ctx, 's, 'row, 'v) gorm \<Rightarrow> go_int \<Rightarrow> 'q Scope" where
  "Limit c n = Some (\<lambda>d. db_Limit c n d)"

definition Offset :: "('q, 'ctx, 's, 'row, 'v) gorm \<Rightarrow> go_int \<Rightarrow> 'q Scope" where
  "Offset c n = Some (\<lambda>d. db_Offset c n d)"

text \<open>The loop \<^verbatim>\<open>for _, s := range scopes { if s != nil { db = s(db) } }\<close>.\<close>

fun applyScopes :: "'q \<Rightarrow> 'q Scope list \<Rightarrow> 'q" where
  "applyScopes q [] = q"
| "applyScopes q (s # scopes) =
     applyScopes (case s of None \<Rightarrow> q | Some f \<Rightarrow> f q) scopes"

definition sc ::
  "('q, 'ctx, 's, 'row, 'v) gorm \<Rightarrow> ('q, 'row) Repo \<Rightarrow> 'ctx \<Rightarrow> 'q Scope list \<Rightarrow> 'q" where
  "sc c r ctx scopes = applyScopes (db_Model c (db_WithContext c ctx (db r))) scopes"

definition scWithTX ::
  "('q, 'ctx, 's, 'row, 'v) gorm \<Rightarrow> ('q, 'row) Repo \<Rightarrow> 'q option \<Rightarrow> 'ctx \<Rightarrow> 'q Scope list
    \<Rightarrow> 'q" where
  "scWithTX c r tx ctx scopes =
     (let d = (case tx of None \<Rightarrow> db r | Some t \<Rightarrow> t)
      in applyScopes (db_Model c (db_WithContext c ctx d)) scopes)"

subsection \<open>Guarded writes\<close>

definition UpdateColumn ::
  "('q, 'ctx, 's, 'row, 'v) gorm \<Rightarrow> ('q, 'row) Repo \<Rightarrow> 'ctx \<Rightarrow> 'q option \<Rightarrow> string \<Rightarrow> 'v
    \<Rightarrow> 'q Scope list \<Rightarrow> ('s, 'q, 'row, 'v) world \<Rightarrow> error option \<times> ('s, 'q, 'row, 'v) world" where
  "UpdateColumn c r ctx tx column val scopes w =
     (if length scopes = 0 then (Some ErrDangerous, w)
      else case exec_Update c (scWithTX c r tx ctx scopes) column val w of
             (e, w') \<Rightarrow> (map_option Collaborator e, w'))"

definition UpdateColumns ::
  "('q, 'ctx, 's, 'row, 'v) gorm \<Rightarrow> ('q, 'row) Repo \<Rightarrow> 'ctx \<Rightarrow> 'q option \<Rightarrow> 'v
    \<Rightarrow> 'q Scope list \<Rightarrow> ('s, 'q, 'row, 'v) world \<Rightarrow> error option \<times> ('s, 'q, 'row, 'v) world" where
  "UpdateColumns c r ctx tx updates scopes w =
     (if length scopes = 0 then (Some ErrDangerous, w)
      else case exec_Updates c (scWithTX c r tx ctx scopes) updates w of
             (e, w') \<Rightarrow> (map_option Collaborator e, w'))"

definition Delete ::
  "('q, 'ctx, 's, 'row, 'v) gorm \<Rightarrow> ('q, 'row) Repo \<Rightarrow> 'ctx \<Rightarrow> 'q option
    \<Rightarrow> 'q Scope list \<Rightarrow> ('s, 'q, 'row, 'v) world \<Rightarrow> error option \<times> ('s, 'q, 'row, 'v) world" where
  "Delete c r ctx tx scopes w =
     (if length scopes = 0 then (Some ErrDangerous, w)
      else case exec_Delete c (scWithTX c r tx ctx scopes) w of
             (e, w') \<Rightarrow> (map_option Collaborator e, w'))"

subsection \<open>BatchInsert\<close>

text \<open>
  The variadic \<^verbatim>\<open>batchSize ...int\<close> is the list of the values passed; the local
  \<^verbatim>\<open>size\<close> is \<open>sz\<close> here.
\<close>

definition BatchInsert ::
  "('q, 'ctx, 's, 'row, 'v) gorm \<Rightarrow> ('q, 'row) Repo \<Rightarrow> 'ctx \<Rightarrow> 'q option \<Rightarrow> 'row list
    \<Rightarrow> go_int list \<Rightarrow> ('s, 'q, 'row, 'v) world \<Rightarrow> error option \<times> ('s, 'q, 'row, 'v) world" where
  "BatchInsert c r ctx tx ents batchSize w =
     (if length ents = 0 then (None, w)
      else
        let d = (case tx of None \<Rightarrow> db r | Some t \<Rightarrow> t);
            sz = (case batchSize of [] \<Rightarrow> 1000 | b # _ \<Rightarrow> b);
            sz = (if sz = 0 then 1000 else sz)
        in case exec_CreateInBatches c (db_WithContext c ctx d) ents sz w of
             (e, w') \<Rightarrow> (map_option Collaborator e, w'))"

subsection \<open>Reads\<close>

definition First ::
  "('q, 'ctx, 's, 'row, 'v) gorm \<Rightarrow> ('q, 'row) Repo \<Rightarrow> 'ctx \<Rightarrow> 'q Scope list
    \<Rightarrow> ('s, 'q, 'row, 'v) world \<Rightarrow> ('row \<times> error option) \<times> ('s, 'q, 'row, 'v) world" where
  "First c r ctx scopes w =
     (case exec_First c (sc c r ctx scopes) (zero r) w of
        ((out, Some err), w') \<Rightarrow>
          if errors_Is err ErrRecordNotFound then ((out, Some ErrNotFound), w')
          else ((out, Some (Collaborator err)), w')
      | ((out, None), w') \<Rightarrow> ((out, None), w'))"

definition List ::
  "('q, 'ctx, 's, 'row, 'v) gorm \<Rightarrow> ('q, 'row) Repo \<Rightarrow> 'ctx \<Rightarrow> 'q Scope list
    \<Rightarrow> ('s, 'q, 'row, 'v) world \<Rightarrow> ('row list \<times> error option) \<times> ('s, 'q, 'row, 'v) world" where
  "List c r ctx scopes w =
     (case exec_Find c (sc c r ctx scopes) w of
        ((out, Some err), w') \<Rightarrow> (([], Some (Collaborator err)), w')
      | ((out, None), w') \<Rightarrow> ((out, None), w'))"

definition Count ::
  "('q, 'ctx, 's, 'row, 'v) gorm \<Rightarrow> ('q, 'row) Repo \<Rightarrow> 'ctx \<Rightarrow> 'q Scope list
    \<Rightarrow> ('s, 'q, 'row, 'v) world \<Rightarrow> (int64 \<times> error option) \<times> ('s, 'q, 'row, 'v) world" where
  "Count c r ctx scopes w =
     (case exec_Count c (sc c r ctx scopes) w of
        ((tot, Some err), w') \<Rightarrow> ((0, Some (Collaborator err)), w')
      | ((tot, None), w') \<Rightarrow> ((tot, None), w'))"

definition Exists ::
  "('q, 'ctx, 's, 'row, 'v) gorm \<Rightarrow> ('q, 'row) Repo \<Rightarrow> 'ctx \<Rightarrow> 'q Scope list
    \<Rightarrow> ('s, 'q, 'row, 'v) world \<Rightarrow> (bool \<times> error option) \<times> ('s, 'q, 'row, 'v) world" where
  "Exists c r ctx scopes w =
     (case exec_Count c (db_Limit c 1 (sc c r ctx scopes)) w of
        ((count, Some err), w') \<Rightarrow> ((False, Some (Collaborator err)), w')
      | ((count, None), w') \<Rightarrow> ((0 <s count, None), w'))"

subsection \<open>Locked reads\<close>

text \<open>The scope both operations append: \<^verbatim>\<open>d.Clauses(clause.Locking{Strength: "UPDATE"})\<close>.\<close>

definition forUpdate :: "('q, 'ctx, 's, 'row, 'v) gorm \<Rightarrow> 'q Scope" where
  "forUpdate c = Some (\<lambda>d. db_Clauses c (Locking ''UPDATE'') d)"

definition FirstForUpdate ::
  "('q, 'ctx, 's, 'row, 'v) gorm \<Rightarrow> ('q, 'row) Repo \<Rightarrow> 'ctx \<Rightarrow> 'q option \<Rightarrow> 'q Scope list
    \<Rightarrow> ('s, 'q, 'row, 'v) world \<Rightarrow> ('row \<times> error option) \<times> ('s, 'q, 'row, 'v) world" where
  "FirstForUpdate c r ctx tx scopes w =
     (if tx = None then ((zero r, Some ErrTxRequired), w)
      else
        let scopes' = scopes @ [forUpdate c]
        in case exec_First c (scWithTX c r tx ctx scopes') (zero r) w of
             ((v, Some err), w') \<Rightarrow>
               if errors_Is err ErrRecordNotFound then ((zero r, Some ErrNotFound), w')
               else ((zero r, Some (Collaborator err)), w')
           | ((v, None), w') \<Rightarrow> ((v, None), w'))"

definition FindForUpdate ::
  "('q, 'ctx, 's, 'row, 'v) gorm \<Rightarrow> ('q, 'row) Repo \<Rightarrow> 'ctx \<Rightarrow> 'q option \<Rightarrow> 'q Scope list
    \<Rightarrow> ('s, 'q, 'row, 'v) world \<Rightarrow> ('row list \<times> error option) \<times> ('s, 'q, 'row, 'v) world" where
  "FindForUpdate c r ctx tx scopes w =
     (if tx = None then (([], Some ErrTxRequired), w)
      else
        let scopes' = scopes @ [forUpdate c]
        in case exec_Find c (scWithTX c r tx ctx scopes') w of
             ((out, Some err), w') \<Rightarrow> (([], Some (Collaborator err)), w')
           | ((out, None), w') \<Rightarrow> ((out, None), w'))"

subsection \<open>Page\<close>

definition Page ::
  "('q, 'ctx, 's, 'row, 'v) gorm \<Rightarrow> ('q, 'row) Repo \<Rightarrow> 'ctx \<Rightarrow> go_int \<Rightarrow> go_int
    \<Rightarrow> 'q Scope list \<Rightarrow> ('s, 'q, 'row, 'v) world
    \<Rightarrow> ('row PageResult \<times> error option) \<times> ('s, 'q, 'row, 'v) world" where
  "Page c r ctx page pageSize scopes w =
     (let page = (if page \<le>s 0 then 1 else page);
          pageSize = (if pageSize \<le>s 0 then 20 else pageSize);
          pageSize = (if 1000 <s pageSize then 1000 else pageSize)
      in case Count c r ctx scopes w of
           ((tot, Some err), w1) \<Rightarrow> ((PageResult_zero, Some err), w1)
         | ((tot, None), w1) \<Rightarrow>
             let offset = (page - 1) * pageSize;
                 q = scopes @ [Limit c pageSize, Offset c offset]
             in (case exec_Find c (sc c r ctx q) w1 of
                   ((items, Some err), w2) \<Rightarrow>
                     ((PageResult_zero, Some (Collaborator err)), w2)
                 | ((items, None), w2) \<Rightarrow>
                     ((\<lparr>Items = items, Total = tot, PageNo = page, PageSize = pageSize,
                        HasNext = (page * pageSize <s tot)\<rparr>, None), w2)))"

subsection \<open>What the scope loop computes, in the words of the specification\<close>

text \<open>
  "Scopes are applied strictly in the order supplied"; "nil scopes are tolerated and
  skipped": the scopes that are not nil, in their order, to be applied one after the
  other from the left.
\<close>

fun nonNilScopes :: "'q Scope list \<Rightarrow> ('q \<Rightarrow> 'q) list" where
  "nonNilScopes [] = []"
| "nonNilScopes (None # scopes) = nonNilScopes scopes"
| "nonNilScopes (Some f # scopes) = f # nonNilScopes scopes"

text \<open>
  The page number and the page size \<^verbatim>\<open>Page\<close> works with, as the specification
  states them: the page is at least 1, the page size is 20 when the one asked for is
  not positive and otherwise the smaller of it and 1000.
\<close>

definition normPage :: "go_int \<Rightarrow> go_int" where
  "normPage page = (if page \<le>s 0 then 1 else page)"

definition normPageSize :: "go_int \<Rightarrow> go_int" where
  "normPageSize pageSize =
     (if pageSize \<le>s 0 then 20 else if pageSize \<le>s 1000 then pageSize else 1000)"

section \<open>A reference collaborator\<close>

text \<open>
  One instance of the collaborator's interface, small enough to run: a single table of
  rows (a key and a name) and queries that carry what the builders put into them. It
  follows what GORM documents: conditions are conjunctive, the last \<^verbatim>\<open>Limit\<close> or
  \<^verbatim>\<open>Offset\<close> wins, a negative one is no bound, an error already on the query
  (\<^verbatim>\<open>AddError\<close>) makes every finisher return it without running, \<^verbatim>\<open>First\<close> on no
  row reports \<^verbatim>\<open>ErrRecordNotFound\<close>, and an update or delete without any condition
  reports \<^verbatim>\<open>ErrMissingWhereClause\<close> unless the handle was opened with
  \<^verbatim>\<open>AllowGlobalUpdate\<close>. The theorems below hold for every collaborator; this one
  gives them concrete inputs.
\<close>

type_synonym row = "nat \<times> string"

record stmt =
  q_allowGlobalUpdate :: bool
  q_model :: bool
  q_where :: "nat list"
  q_limit :: "go_int option"
  q_offset :: "go_int option"
  q_locking :: "string option"
  q_error :: "gorm_error option"

definition matching :: "stmt \<Rightarrow> row list \<Rightarrow> row list" where
  "matching q rows = filter (\<lambda>x. list_all (\<lambda>k. fst x = k) (q_where q)) rows"

definition bound :: "go_int option \<Rightarrow> nat option" where
  "bound b = (case b of None \<Rightarrow> None
              | Some n \<Rightarrow> if n <s 0 then None else Some (unat n))"

definition window :: "stmt \<Rightarrow> row list \<Rightarrow> row list" where
  "window q rows =
     (let rows = (case bound (q_offset q) of None \<Rightarrow> rows | Some n \<Rightarrow> drop n rows)
      in case bound (q_limit q) of None \<Rightarrow> rows | Some n \<Rightarrow> take n rows)"

definition ref_write ::
  "stmt \<Rightarrow> (row list \<Rightarrow> row list) \<Rightarrow> row list \<Rightarrow> gorm_error option \<times> row list" where
  "ref_write q f rows =
     (case q_error q of
        Some e \<Rightarrow> (Some e, rows)
      | None \<Rightarrow>
          if q_where q = [] \<and> \<not> q_allowGlobalUpdate q then (Some ErrMissingWhereClause, rows)
          else (None, f rows))"

definition ref_gorm :: "(stmt, unit, row list, row, string) gorm" where
  "ref_gorm =
     \<lparr>db_Session = (\<lambda>q. q),
      db_WithContext = (\<lambda>ctx q. q),
      db_Model = (\<lambda>q. q\<lparr>q_model := True\<rparr>),
      db_Limit = (\<lambda>n q. q\<lparr>q_limit := Some n\<rparr>),
      db_Offset = (\<lambda>n q. q\<lparr>q_offset := Some n\<rparr>),
      db_Clauses = (\<lambda>cl q. case cl of Locking s \<Rightarrow> q\<lparr>q_locking := Some s\<rparr>),
      db_Update = (\<lambda>column val q rows.
         ref_write q (map (\<lambda>x. if x \<in> set (matching q rows) then (fst x, val) else x)) rows),
      db_Updates = (\<lambda>val q rows.
         ref_write q (map (\<lambda>x. if x \<in> set (matching q rows) then (fst x, val) else x)) rows),
      db_Delete = (\<lambda>q rows.
         ref_write q (filter (\<lambda>x. x \<notin> set (matching q rows))) rows),
      db_CreateInBatches = (\<lambda>ents sz q rows.
         case q_error q of Some e \<Rightarrow> (Some e, rows) | None \<Rightarrow> (None, rows @ ents)),
      db_First = (\<lambda>dest q rows.
         case q_error q of
           Some e \<Rightarrow> ((dest, Some e), rows)
         | None \<Rightarrow> (case window q (matching q rows) of
                       [] \<Rightarrow> ((dest, Some ErrRecordNotFound), rows)
                     | x # _ \<Rightarrow> ((x, None), rows))),
      db_Find = (\<lambda>q rows.
         case q_error q of
           Some e \<Rightarrow> (([], Some e), rows)
         | None \<Rightarrow> ((window q (matching q rows), None), rows)),
      db_Count = (\<lambda>q rows.
         case q_error q of
           Some e \<Rightarrow> ((0, Some e), rows)
         | None \<Rightarrow> ((word_of_nat (length (window q (matching q rows))), None), rows))\<rparr>"

text \<open>A fresh handle, a struct entity type, a repository on it, a table of five rows.\<close>

definition ref_db :: stmt where
  "ref_db = \<lparr>q_allowGlobalUpdate = False, q_model = False, q_where = [], q_limit = None,
             q_offset = None, q_locking = None, q_error = None\<rparr>"

definition ref_T :: "row TypeParam" where
  "ref_T = \<lparr>kindT = Struct, zeroT = (0, [])\<rparr>"

definition ref_repo :: "(stmt, row) Repo" where
  "ref_repo = \<lparr>db = ref_db, zero = (0, [])\<rparr>"

definition ref_world :: "(row list, stmt, row, string) world" where
  "ref_world =
     \<lparr>store = [(1, ''ann''), (2, ''bob''), (3, ''cy''), (4, ''dee''), (5, ''eve'')],
      calls = []\<rparr>"

text \<open>
  The same repository on a handle opened with \<^verbatim>\<open>AllowGlobalUpdate\<close>, and the type
  parameter \<^verbatim>\<open>T = any\<close>, an interface type.
\<close>

definition ref_repo_global :: "(stmt, row) Repo" where
  "ref_repo_global = \<lparr>db = ref_db\<lparr>q_allowGlobalUpdate := True\<rparr>, zero = (0, [])\<rparr>"

definition ref_any :: "row TypeParam" where
  "ref_any = \<lparr>kindT = Interface, zeroT = (0, [])\<rparr>"

text \<open>Scopes a caller may pass: a condition on the key, and one that puts an error on the query.\<close>

definition where_id :: "nat \<Rightarrow> stmt Scope" where
  "where_id k = Some (\<lambda>q. q\<lparr>q_where := q_where q @ [k]\<rparr>)"

definition add_error :: "gorm_error \<Rightarrow> stmt Scope" where
  "add_error e = Some (\<lambda>q. case q_error q of None \<Rightarrow> q\<lparr>q_error := Some e\<rparr> | Some _ \<Rightarrow> q)"

section \<open>Properties\<close>

lemmas exec_defs =
  exec_Update_def exec_Updates_def exec_Delete_def exec_CreateInBatches_def
  exec_First_def exec_Find_def exec_Count_def

lemmas ref_defs =
  ref_gorm_def ref_db_def ref_T_def ref_repo_def ref_repo_global_def ref_any_def
  ref_world_def where_id_def add_error_def matching_def bound_def window_def ref_write_def

subsection \<open>The scope loop\<close>

lemma applyScopes_foldl:
  "applyScopes q scopes = foldl (\<lambda>d f. f d) q (nonNilScopes scopes)"
  by (induction scopes arbitrary: q rule: nonNilScopes.induct) simp_all

lemma nonNilScopes_append:
  "nonNilScopes (xs @ ys) = nonNilScopes xs @ nonNilScopes ys"
  by (induction xs rule: nonNilScopes.induct) simp_all

lemma nonNilScopes_filter:
  "nonNilScopes (filter (\<lambda>s. s \<noteq> None) scopes) = nonNilScopes scopes"
  by (induction scopes rule: nonNilScopes.induct) (simp_all del: not_None_eq)

lemma nonNilScopes_all_nil:
  "list_all (\<lambda>s. s = None) scopes \<Longrightarrow> nonNilScopes scopes = []"
  by (induction scopes rule: nonNilScopes.induct) simp_all


lemma scWithTX_snoc:
  "scWithTX c r tx ctx (scopes @ [Some f]) = f (scWithTX c r tx ctx scopes)"
  by (simp add: scWithTX_def applyScopes_foldl nonNilScopes_append)

text \<open>
  C8: in \<^verbatim>\<open>sc\<close> and \<^verbatim>\<open>scWithTX\<close>, which every query operation goes through, the base
  query (the handle with the context and the model bound) is transformed by the
  scopes that are not nil, applied as functions from left to right in the order
  supplied. A nil scope is the identity: a nil scope inserted anywhere, or all nil
  scopes removed, gives the same query.
\<close>

theorem scopes_in_order_nil_skipped:
  "sc c r ctx scopes =
     foldl (\<lambda>d f. f d) (db_Model c (db_WithContext c ctx (db r))) (nonNilScopes scopes)
   \<and> scWithTX c r tx ctx scopes =
     foldl (\<lambda>d f. f d)
       (db_Model c (db_WithContext c ctx (case tx of None \<Rightarrow> db r | Some t \<Rightarrow> t)))
       (nonNilScopes scopes)
   \<and> sc c r ctx (xs @ None # ys) = sc c r ctx (xs @ ys)
   \<and> scWithTX c r tx ctx (xs @ None # ys) = scWithTX c r tx ctx (xs @ ys)
   \<and> sc c r ctx (filter (\<lambda>s. s \<noteq> None) scopes) = sc c r ctx scopes
   \<and> scWithTX c r tx ctx (filter (\<lambda>s. s \<noteq> None) scopes) = scWithTX c r tx ctx scopes"
  using nonNilScopes_filter [of scopes]
  by (simp add: sc_def scWithTX_def applyScopes_foldl nonNilScopes_append
      del: not_None_eq)

text \<open>Two scopes and a nil one between them: the first is applied first.\<close>

lemma sc_two_scopes:
  "sc c r ctx [Some f, None, Some g] = g (f (db_Model c (db_WithContext c ctx (db r))))"
  by (simp add: sc_def)

subsection \<open>The guard of the writes\<close>

text \<open>
  With no scope at all the three guarded writes return \<^verbatim>\<open>ErrDangerous\<close> and leave
  the world as it was: no finisher runs and the store is the same.
\<close>

lemma guard_no_scopes:
  "UpdateColumn c r ctx tx column val [] w = (Some ErrDangerous, w)
   \<and> UpdateColumns c r ctx tx updates [] w = (Some ErrDangerous, w)
   \<and> Delete c r ctx tx [] w = (Some ErrDangerous, w)"
  by (simp add: UpdateColumn_def UpdateColumns_def Delete_def)

text \<open>
  The guard counts the scopes, nil or not. A list that is not empty passes it, and
  when all its scopes are nil the finisher runs on the base query, with no condition
  added to it.
\<close>

lemma guard_only_nil_scopes:
  assumes "scopes \<noteq> []" and "list_all (\<lambda>s. s = None) scopes"
  shows "Delete c r ctx tx scopes w =
           (case exec_Delete c
                   (db_Model c (db_WithContext c ctx (case tx of None \<Rightarrow> db r | Some t \<Rightarrow> t))) w of
              (e, w') \<Rightarrow> (map_option Collaborator e, w'))"
    and "UpdateColumn c r ctx tx column val scopes w =
           (case exec_Update c
                   (db_Model c (db_WithContext c ctx (case tx of None \<Rightarrow> db r | Some t \<Rightarrow> t)))
                   column val w of
              (e, w') \<Rightarrow> (map_option Collaborator e, w'))"
    and "UpdateColumns c r ctx tx updates scopes w =
           (case exec_Updates c
                   (db_Model c (db_WithContext c ctx (case tx of None \<Rightarrow> db r | Some t \<Rightarrow> t)))
                   updates w of
              (e, w') \<Rightarrow> (map_option Collaborator e, w'))"
  using assms
  by (simp_all add: Delete_def UpdateColumn_def UpdateColumns_def scWithTX_def
      applyScopes_foldl nonNilScopes_all_nil)

text \<open>
  C1: the specification asks for at least one non-nil scope: a scope list without
  any is to make \<^verbatim>\<open>UpdateColumn\<close>, \<^verbatim>\<open>UpdateColumns\<close> and \<^verbatim>\<open>Delete\<close> return
  \<^verbatim>\<open>ErrDangerous\<close> and modify no row. The code does so for the empty list only.
  Here the scope list is the single nil scope, on a handle that allows global
  updates: none of the three returns an error, \<^verbatim>\<open>Delete\<close> removes every row and
  the updates rewrite every row.
\<close>

theorem nil_scope_passes_guard:
  "Delete ref_gorm ref_repo_global () None [None] ref_world =
     (None, \<lparr>store = [], calls = [CallDelete (db ref_repo_global\<lparr>q_model := True\<rparr>)]\<rparr>)
   \<and> UpdateColumn ref_gorm ref_repo_global () None ''name'' ''x'' [None] ref_world =
     (None, \<lparr>store = [(1, ''x''), (2, ''x''), (3, ''x''), (4, ''x''), (5, ''x'')],
             calls = [CallUpdate (db ref_repo_global\<lparr>q_model := True\<rparr>) ''name'' ''x'']\<rparr>)
   \<and> UpdateColumns ref_gorm ref_repo_global () None ''x'' [None] ref_world =
     (None, \<lparr>store = [(1, ''x''), (2, ''x''), (3, ''x''), (4, ''x''), (5, ''x'')],
             calls = [CallUpdates (db ref_repo_global\<lparr>q_model := True\<rparr>) ''x'']\<rparr>)"
  by (simp add: Delete_def UpdateColumn_def UpdateColumns_def scWithTX_def exec_defs ref_defs)

text \<open>
  On a handle with the collaborator's default the rows stay, but the error is the
  collaborator's \<^verbatim>\<open>ErrMissingWhereClause\<close>, not \<^verbatim>\<open>ErrDangerous\<close>, and the delete
  statement was handed to the collaborator.
\<close>

lemma nil_scope_default_handle:
  "Delete ref_gorm ref_repo () None [None] ref_world =
     (Some (Collaborator ErrMissingWhereClause),
      \<lparr>store = store ref_world, calls = [CallDelete (ref_db\<lparr>q_model := True\<rparr>)]\<rparr>)"
  by (simp add: Delete_def scWithTX_def exec_defs ref_defs)

subsection \<open>Locked reads need a transaction\<close>

text \<open>
  C2: with a nil transaction handle \<^verbatim>\<open>FirstForUpdate\<close> and \<^verbatim>\<open>FindForUpdate\<close>
  return \<^verbatim>\<open>ErrTxRequired\<close> (with the zero value and the nil slice) and the world is
  the one they started in, whatever the collaborator is: no finisher ran and the
  store is the same. With a transaction handle the error returned is never
  \<^verbatim>\<open>ErrTxRequired\<close>.
\<close>

theorem locked_reads_need_tx:
  "FirstForUpdate c r ctx None scopes w = ((zero r, Some ErrTxRequired), w)
   \<and> FindForUpdate c r ctx None scopes w = (([], Some ErrTxRequired), w)
   \<and> snd (fst (FirstForUpdate c r ctx (Some tx) scopes w)) \<noteq> Some ErrTxRequired
   \<and> snd (fst (FindForUpdate c r ctx (Some tx) scopes w)) \<noteq> Some ErrTxRequired"
  by (simp add: FirstForUpdate_def FindForUpdate_def Let_def
      split: prod.splits option.splits)

text \<open>
  With a transaction handle both run exactly one finisher, on the query built on that
  handle from the caller's scopes followed by the locking clause.
\<close>

lemma locked_reads_with_tx:
  "calls (snd (FirstForUpdate c r ctx (Some tx) scopes w)) =
     calls w @ [CallFirst (db_Clauses c (Locking ''UPDATE'')
                  (scWithTX c r (Some tx) ctx scopes))]"
  "calls (snd (FindForUpdate c r ctx (Some tx) scopes w)) =
     calls w @ [CallFind (db_Clauses c (Locking ''UPDATE'')
                  (scWithTX c r (Some tx) ctx scopes))]"
  by (simp_all add: FirstForUpdate_def FindForUpdate_def Let_def forUpdate_def scWithTX_snoc
      exec_First_def exec_Find_def split: prod.splits option.splits)

lemma locked_reads_on_reference:
  "FirstForUpdate ref_gorm ref_repo () None [where_id 2] ref_world =
     (((0, []), Some ErrTxRequired), ref_world)"
  "FirstForUpdate ref_gorm ref_repo () (Some ref_db) [where_id 2] ref_world =
     (((2, ''bob''), None),
      \<lparr>store = store ref_world,
        calls = [CallFirst (ref_db\<lparr>q_model := True, q_where := [2],
                                   q_locking := Some ''UPDATE''\<rparr>)]\<rparr>)"
  by (simp_all add: FirstForUpdate_def forUpdate_def scWithTX_def exec_defs ref_defs)

subsection \<open>Not found\<close>

text \<open>
  C5: when the collaborator's \<^verbatim>\<open>First\<close> reports an error, \<^verbatim>\<open>First\<close> (and
  \<^verbatim>\<open>FirstForUpdate\<close> with a transaction handle) returns \<^verbatim>\<open>ErrNotFound\<close> if that
  error is a "no rows" one (\<^verbatim>\<open>errors.Is(err, gorm.ErrRecordNotFound)\<close>), and
  otherwise returns the collaborator's error itself, unchanged.
\<close>

theorem not_found_mapping:
  "(exec_First c (sc c r ctx scopes) (zero r) w = ((out, Some e), w') \<longrightarrow>
      First c r ctx scopes w =
        ((out, Some (if errors_Is e ErrRecordNotFound then ErrNotFound else Collaborator e)), w'))
   \<and> (exec_First c (scWithTX c r (Some tx) ctx (scopes @ [forUpdate c])) (zero r) w
         = ((v, Some e2), w2) \<longrightarrow>
      FirstForUpdate c r ctx (Some tx) scopes w =
        ((zero r,
          Some (if errors_Is e2 ErrRecordNotFound then ErrNotFound else Collaborator e2)), w2))"
  by (simp add: First_def FirstForUpdate_def Let_def)

text \<open>
  On the reference table: no row has key 9, so \<^verbatim>\<open>First\<close> and \<^verbatim>\<open>FirstForUpdate\<close>
  return \<^verbatim>\<open>ErrNotFound\<close>.
\<close>

theorem not_found_mapping_witness:
  "exec_First ref_gorm (sc ref_gorm ref_repo () [where_id 9]) (zero ref_repo) ref_world =
     (((0, []), Some ErrRecordNotFound),
      \<lparr>store = store ref_world,
        calls = [CallFirst (ref_db\<lparr>q_model := True, q_where := [9]\<rparr>)]\<rparr>)
   \<and> First ref_gorm ref_repo () [where_id 9] ref_world =
     (((0, []), Some ErrNotFound),
      \<lparr>store = store ref_world,
        calls = [CallFirst (ref_db\<lparr>q_model := True, q_where := [9]\<rparr>)]\<rparr>)
   \<and> exec_First ref_gorm
        (scWithTX ref_gorm ref_repo (Some ref_db) () ([where_id 9] @ [forUpdate ref_gorm]))
        (zero ref_repo) ref_world =
     (((0, []), Some ErrRecordNotFound),
      \<lparr>store = store ref_world,
        calls = [CallFirst (ref_db\<lparr>q_model := True, q_where := [9],
                                   q_locking := Some ''UPDATE''\<rparr>)]\<rparr>)
   \<and> FirstForUpdate ref_gorm ref_repo () (Some ref_db) [where_id 9] ref_world =
     (((0, []), Some ErrNotFound),
      \<lparr>store = store ref_world,
        calls = [CallFirst (ref_db\<lparr>q_model := True, q_where := [9],
                                   q_locking := Some ''UPDATE''\<rparr>)]\<rparr>)"
proof -
  let ?w1 = "\<lparr>store = store ref_world,
               calls = [CallFirst (ref_db\<lparr>q_model := True, q_where := [9]\<rparr>)]\<rparr>"
  let ?w2 = "\<lparr>store = store ref_world,
               calls = [CallFirst (ref_db\<lparr>q_model := True, q_where := [9],
                                          q_locking := Some ''UPDATE''\<rparr>)]\<rparr>"
  have h1: "exec_First ref_gorm (sc ref_gorm ref_repo () [where_id 9]) (zero ref_repo) ref_world
              = (((0, []), Some ErrRecordNotFound), ?w1)"
    by (simp add: sc_def exec_defs ref_defs)
  have h2: "exec_First ref_gorm
              (scWithTX ref_gorm ref_repo (Some ref_db) () ([where_id 9] @ [forUpdate ref_gorm]))
              (zero ref_repo) ref_world
              = (((0, []), Some ErrRecordNotFound), ?w2)"
    by (simp add: scWithTX_def forUpdate_def exec_defs ref_defs)
  show ?thesis
    using h1 h2
      not_found_mapping [of ref_gorm ref_repo "()" "[where_id 9]" ref_world "(0, [])"
        ErrRecordNotFound ?w1 ref_db "(0, [])" ErrRecordNotFound ?w2]
    by (simp add: ref_repo_def)
qed

text \<open>
  An error that wraps \<^verbatim>\<open>ErrRecordNotFound\<close> is a "no rows" error too; any other one
  comes back as it is.
\<close>

lemma errors_Is_wrapped:
  "errors_Is (Wrapped ''query users'' ErrRecordNotFound) ErrRecordNotFound"
  "\<not> errors_Is (ErrOther ''connection refused'') ErrRecordNotFound"
  by simp_all

lemma First_other_error:
  "First ref_gorm ref_repo () [add_error (ErrOther ''connection refused'')] ref_world =
     (((0, []), Some (Collaborator (ErrOther ''connection refused''))),
      \<lparr>store = store ref_world,
        calls = [CallFirst (ref_db\<lparr>q_model := True,
                                   q_error := Some (ErrOther ''connection refused'')\<rparr>)]\<rparr>)"
  by (simp add: First_def sc_def exec_defs ref_defs)

subsection \<open>NewRepo\<close>

text \<open>
  For a type parameter that is not an interface type, \<^verbatim>\<open>NewRepo\<close> returns the
  repository exactly when the type is a struct type and \<^verbatim>\<open>ErrInvalidType\<close> otherwise
  (pointer types among them).
\<close>

lemma NewRepo_other_kinds:
  "kindT T \<noteq> Interface \<Longrightarrow>
     NewRepo c T d =
       (if kindT T = Struct then Return (Some \<lparr>db = db_Session c d, zero = zeroT T\<rparr>, None)
        else Return (None, Some ErrInvalidType))"
  by (simp add: NewRepo_def reflect_TypeOf_zero_def)

lemma NewRepo_on_reference:
  "NewRepo ref_gorm ref_T ref_db = Return (Some ref_repo, None)"
  "NewRepo ref_gorm (ref_T\<lparr>kindT := Pointer\<rparr>) ref_db = Return (None, Some ErrInvalidType)"
  "NewRepo ref_gorm (ref_T\<lparr>kindT := String\<rparr>) ref_db = Return (None, Some ErrInvalidType)"
  by (simp_all add: NewRepo_def reflect_TypeOf_zero_def ref_defs)

text \<open>
  C6: the specification has \<^verbatim>\<open>NewRepo\<close> fail with \<^verbatim>\<open>ErrInvalidType\<close> for every
  type parameter that is not a struct type. For \<^verbatim>\<open>T = any\<close>, an interface type and
  so not a struct type, the code returns nothing at all: it panics.
\<close>

theorem NewRepo_any_no_error:
  "NewRepo ref_gorm ref_any ref_db \<noteq> Return (None, Some ErrInvalidType)
   \<and> NewRepo ref_gorm ref_any ref_db = Panic"
  by (simp add: NewRepo_def reflect_TypeOf_zero_def ref_any_def)

text \<open>
  C10: for a type parameter that is an interface type, \<^verbatim>\<open>reflect.TypeOf\<close> of the
  zero value is nil and the call of \<^verbatim>\<open>Kind\<close> on it panics: \<^verbatim>\<open>NewRepo\<close> panics
  instead of returning \<^verbatim>\<open>ErrInvalidType\<close>.
\<close>

theorem NewRepo_interface_panics:
  "kindT T = Interface \<Longrightarrow>
     reflect_TypeOf_zero T = None \<and> NewRepo c T d = Panic
     \<and> NewRepo c T d \<noteq> Return (None, Some ErrInvalidType)"
  by (simp add: NewRepo_def reflect_TypeOf_zero_def)

theorem NewRepo_interface_panics_witness:
  "kindT ref_any = Interface \<and> reflect_TypeOf_zero ref_any = None
   \<and> NewRepo ref_gorm ref_any ref_db = Panic"
proof -
  have h: "kindT ref_any = Interface" by (simp add: ref_any_def)
  show ?thesis using h NewRepo_interface_panics [OF h, of ref_gorm ref_db] by simp
qed

subsection \<open>BatchInsert\<close>

text \<open>
  C7: on an empty list \<^verbatim>\<open>BatchInsert\<close> returns no error and the world is unchanged
  (no finisher ran). On a list that is not empty it runs the collaborator's
  \<^verbatim>\<open>CreateInBatches\<close> once, on the handle (the transaction when there is one) with
  the context bound, with chunk size 1000 when no batch size was passed or the one
  passed is 0, and the batch size passed otherwise.
\<close>

theorem BatchInsert_chunks:
  "BatchInsert c r ctx tx [] batchSize w = (None, w)
   \<and> (ents \<noteq> [] \<longrightarrow>
        BatchInsert c r ctx tx ents batchSize w =
          (case exec_CreateInBatches c
                  (db_WithContext c ctx (case tx of None \<Rightarrow> db r | Some t \<Rightarrow> t)) ents
                  (case batchSize of [] \<Rightarrow> 1000 | b # _ \<Rightarrow> if b = 0 then 1000 else b) w of
             (e, w') \<Rightarrow> (map_option Collaborator e, w'))
        \<and> calls (snd (BatchInsert c r ctx tx ents batchSize w)) =
          calls w @ [CallCreateInBatches
                  (db_WithContext c ctx (case tx of None \<Rightarrow> db r | Some t \<Rightarrow> t)) ents
                  (case batchSize of [] \<Rightarrow> 1000 | b # _ \<Rightarrow> if b = 0 then 1000 else b)])"
  by (simp add: BatchInsert_def Let_def exec_CreateInBatches_def split: list.splits prod.splits)

theorem BatchInsert_chunks_witness:
  "[(6, ''fay'')] \<noteq> ([] :: row list)
   \<and> BatchInsert ref_gorm ref_repo () None [] [0] ref_world = (None, ref_world)
   \<and> calls (snd (BatchInsert ref_gorm ref_repo () None [(6, ''fay'')] [0] ref_world)) =
       [CallCreateInBatches ref_db [(6, ''fay'')] 1000]
   \<and> store (snd (BatchInsert ref_gorm ref_repo () None [(6, ''fay'')] [0] ref_world)) =
       store ref_world @ [(6, ''fay'')]"
proof -
  have h: "[(6, ''fay'')] \<noteq> ([] :: row list)" by simp
  show ?thesis
    using h BatchInsert_chunks [of ref_gorm ref_repo "()" None "[0]" ref_world "[(6, ''fay'')]"]
    by (simp add: exec_defs ref_defs)
qed

lemma BatchInsert_sizes:
  "calls (snd (BatchInsert ref_gorm ref_repo () None [(6, ''fay'')] [] ref_world)) =
     [CallCreateInBatches ref_db [(6, ''fay'')] 1000]"
  "calls (snd (BatchInsert ref_gorm ref_repo () None [(6, ''fay'')] [50] ref_world)) =
     [CallCreateInBatches ref_db [(6, ''fay'')] 50]"
  by (simp_all add: BatchInsert_def exec_defs ref_defs)

subsection \<open>Page\<close>

text \<open>
  \<^verbatim>\<open>Page\<close> with its two local assignments folded into \<open>normPage\<close> and
  \<open>normPageSize\<close>, and the two appended scopes applied.
\<close>

lemma Page_unfold:
  "Page c r ctx page pageSize scopes w =
     (case Count c r ctx scopes w of
        ((tot, Some err), w1) \<Rightarrow> ((PageResult_zero, Some err), w1)
      | ((tot, None), w1) \<Rightarrow>
          (case exec_Find c
                  (db_Offset c ((normPage page - 1) * normPageSize pageSize)
                    (db_Limit c (normPageSize pageSize) (sc c r ctx scopes))) w1 of
             ((items, Some err), w2) \<Rightarrow> ((PageResult_zero, Some (Collaborator err)), w2)
           | ((items, None), w2) \<Rightarrow>
               ((\<lparr>Items = items, Total = tot, PageNo = normPage page,
                  PageSize = normPageSize pageSize,
                  HasNext = (normPage page * normPageSize pageSize <s tot)\<rparr>, None), w2)))"
proof -
  have q: "sc c r ctx (scopes @ [Limit c a, Offset c b]) =
             db_Offset c b (db_Limit c a (sc c r ctx scopes))" for a b
    by (simp add: sc_def applyScopes_foldl nonNilScopes_append Limit_def Offset_def)
  have ps: "(if 1000 <s (if pageSize \<le>s 0 then 20 else pageSize) then 1000
             else (if pageSize \<le>s 0 then 20 else pageSize)) = normPageSize pageSize"
    by (auto simp: normPageSize_def word_sless_alt word_sle_eq)
  have pg: "(if page \<le>s 0 then 1 else page) = normPage page"
    by (simp add: normPage_def)
  show ?thesis
    unfolding Page_def Let_def ps pg q by simp
qed

text \<open>
  C3: when \<^verbatim>\<open>Page\<close> returns a result, its \<^verbatim>\<open>Page\<close> field is \<open>page'\<close>, which is 1
  when \<open>page \<le> 0\<close> and \<open>page\<close> otherwise, its \<^verbatim>\<open>PageSize\<close> is \<open>pageSize'\<close>,
  which is 20 when \<open>pageSize \<le> 0\<close> and otherwise the smaller of \<open>pageSize\<close> and 1000,
  and \<^verbatim>\<open>HasNext\<close> is true exactly when \<open>page' * pageSize' < Total\<close>. The product
  is the one the code computes, in Go's \<^verbatim>\<open>int\<close>; the comparisons are signed.
\<close>

theorem Page_result:
  assumes "Page c r ctx page pageSize scopes w = ((res, None), w')"
  shows "let page' = (if page \<le>s 0 then 1 else page);
             pageSize' = (if pageSize \<le>s 0 then 20
                          else if pageSize \<le>s 1000 then pageSize else 1000)
         in PageNo res = page' \<and> PageSize res = pageSize'
            \<and> (HasNext res \<longleftrightarrow> page' * pageSize' <s Total res)"
proof -
  have "PageNo res = normPage page \<and> PageSize res = normPageSize pageSize
        \<and> (HasNext res \<longleftrightarrow> normPage page * normPageSize pageSize <s Total res)"
    using assms unfolding Page_unfold
    by (auto split: prod.splits option.splits)
  then show ?thesis by (simp add: normPage_def normPageSize_def)
qed

text \<open>
  \<^verbatim>\<open>Page(ctx, 0, 0)\<close> on the five rows of the reference table: page 1, page size 20,
  all five rows, no next page.
\<close>

theorem Page_result_witness:
  "Page ref_gorm ref_repo () 0 0 [] ref_world =
     ((\<lparr>Items = store ref_world, Total = 5, PageNo = 1, PageSize = 20, HasNext = False\<rparr>, None),
      \<lparr>store = store ref_world,
        calls = [CallCount (ref_db\<lparr>q_model := True\<rparr>),
                 CallFind (ref_db\<lparr>q_model := True, q_limit := Some 20, q_offset := Some 0\<rparr>)]\<rparr>)
   \<and> \<not> ((1 :: go_int) * 20 <s 5)"
proof -
  have run: "Page ref_gorm ref_repo () 0 0 [] ref_world =
     ((\<lparr>Items = store ref_world, Total = 5, PageNo = 1, PageSize = 20, HasNext = False\<rparr>, None),
      \<lparr>store = store ref_world,
        calls = [CallCount (ref_db\<lparr>q_model := True\<rparr>),
                 CallFind (ref_db\<lparr>q_model := True, q_limit := Some 20, q_offset := Some 0\<rparr>)]\<rparr>)"
    by (simp add: Page_def Count_def sc_def Limit_def Offset_def exec_defs ref_defs
        word_sless_alt word_sle_eq)
  show ?thesis using run Page_result [OF run] by (simp add: Let_def)
qed

text \<open>
  The product \<open>page' * pageSize'\<close> is the product of the integers as long as it fits
  into 64 bits, which it does for every page up to 9223372036854775; then
  \<^verbatim>\<open>HasNext\<close> compares the integers. Beyond that the product wraps around: at page
  \<open>2 ^ 62\<close> with page size 4 it is 0 and the offset is -4.
\<close>

lemma sint_mult_exact:
  fixes p s :: "64 word"
  assumes "0 <s p" "sint p \<le> 9223372036854775" "0 <s s" "s \<le>s 1000"
  shows "sint (p * s) = sint p * sint s"
proof -
  have p: "0 < sint p" and s: "0 < sint s" "sint s \<le> 1000"
    using assms by (simp_all add: word_sless_alt word_sle_eq)
  have "sint p * sint s \<le> 9223372036854775 * 1000"
    using p s assms(2) by (intro mult_mono) simp_all
  moreover have "0 \<le> sint p * sint s" using p s by simp
  ultimately have "signed_take_bit 63 (sint p * sint s) = sint p * sint s"
    by (intro signed_take_bit_int_eq_self) simp_all
  then show ?thesis by (simp add: sint_word_ariths)
qed

lemma signed_ground:
  "(0 :: 64 word) <s 1" "(0 :: 64 word) <s 20" "(0 :: 64 word) <s 1000"
  "(20 :: 64 word) \<le>s 1000"
  by (simp_all add: word_sless_alt word_sle_eq)

lemma norm_bounds:
  "0 <s normPage page" "0 <s normPageSize pageSize" "normPageSize pageSize \<le>s 1000"
  by (simp_all add: normPage_def normPageSize_def signed.not_le signed_ground)

lemma Page_HasNext_exact:
  assumes "Page c r ctx page pageSize scopes w = ((res, None), w')"
    and "sint (PageNo res) \<le> 9223372036854775"
  shows "HasNext res \<longleftrightarrow> sint (PageNo res) * sint (PageSize res) < sint (Total res)"
proof -
  have eqs: "PageNo res = normPage page" "PageSize res = normPageSize pageSize"
    and "HasNext res \<longleftrightarrow> PageNo res * PageSize res <s Total res"
    using assms(1) unfolding Page_unfold by (auto split: prod.splits option.splits)
  moreover have "sint (PageNo res * PageSize res) = sint (PageNo res) * sint (PageSize res)"
    using assms(2) unfolding eqs by (intro sint_mult_exact norm_bounds)
  ultimately show ?thesis by (simp add: word_sless_alt)
qed

lemma Page_wraps:
  "fst (Page ref_gorm ref_repo () 4611686018427387904 4 [] ref_world) =
     (\<lparr>Items = take 4 (store ref_world), Total = 5, PageNo = 4611686018427387904,
        PageSize = 4, HasNext = True\<rparr>, None)"
  by (simp add: Page_def Count_def sc_def Limit_def Offset_def exec_defs ref_defs
      word_sless_alt word_sle_eq)

text \<open>
  C4: once the count of the scoped query has succeeded with \<open>tot\<close>, \<^verbatim>\<open>Page\<close> runs
  exactly two finishers: that \<^verbatim>\<open>Count\<close> on the query built from the caller's
  scopes, then a \<^verbatim>\<open>Find\<close> on the query built from the same scopes with
  \<^verbatim>\<open>Limit(pageSize')\<close> and \<^verbatim>\<open>Offset((page' - 1) * pageSize')\<close> appended after
  them. When the \<^verbatim>\<open>Find\<close> succeeds its rows are the \<^verbatim>\<open>Items\<close> and \<open>tot\<close> is the
  \<^verbatim>\<open>Total\<close>. The offset is computed in Go's \<^verbatim>\<open>int\<close>.
\<close>

theorem Page_two_queries:
  assumes "exec_Count c (sc c r ctx scopes) w = ((tot, None), w1)"
  shows "let page' = (if page \<le>s 0 then 1 else page);
             pageSize' = (if pageSize \<le>s 0 then 20
                          else if pageSize \<le>s 1000 then pageSize else 1000);
             q = sc c r ctx (scopes @ [Limit c pageSize', Offset c ((page' - 1) * pageSize')])
         in q = db_Offset c ((page' - 1) * pageSize') (db_Limit c pageSize' (sc c r ctx scopes))
            \<and> snd (Page c r ctx page pageSize scopes w) = snd (exec_Find c q w1)
            \<and> calls (snd (Page c r ctx page pageSize scopes w)) =
                calls w @ [CallCount (sc c r ctx scopes), CallFind q]
            \<and> (snd (fst (exec_Find c q w1)) = None \<longrightarrow>
                 fst (Page c r ctx page pageSize scopes w) =
                   (\<lparr>Items = fst (fst (exec_Find c q w1)), Total = tot, PageNo = page',
                      PageSize = pageSize', HasNext = (page' * pageSize' <s tot)\<rparr>, None))"
proof -
  let ?q = "db_Offset c ((normPage page - 1) * normPageSize pageSize)
              (db_Limit c (normPageSize pageSize) (sc c r ctx scopes))"
  have q: "sc c r ctx (scopes @ [Limit c (normPageSize pageSize),
                                 Offset c ((normPage page - 1) * normPageSize pageSize)]) = ?q"
    by (simp add: sc_def applyScopes_foldl nonNilScopes_append Limit_def Offset_def)
  have cnt: "Count c r ctx scopes w = ((tot, None), w1)"
    using assms by (simp add: Count_def)
  have w1: "calls w1 = calls w @ [CallCount (sc c r ctx scopes)]"
    using assms by (auto simp: exec_Count_def split: prod.splits)
  have fnd: "calls (snd (exec_Find c ?q w1)) =
               calls w @ [CallCount (sc c r ctx scopes), CallFind ?q]"
    by (simp add: exec_Find_def w1 split: prod.splits)
  have page: "Page c r ctx page pageSize scopes w =
     (case exec_Find c ?q w1 of
        ((items, Some err), w2) \<Rightarrow> ((PageResult_zero, Some (Collaborator err)), w2)
      | ((items, None), w2) \<Rightarrow>
          ((\<lparr>Items = items, Total = tot, PageNo = normPage page,
             PageSize = normPageSize pageSize,
             HasNext = (normPage page * normPageSize pageSize <s tot)\<rparr>, None), w2))"
    unfolding Page_unfold cnt by simp
  have a: "snd (Page c r ctx page pageSize scopes w) = snd (exec_Find c ?q w1)"
    unfolding page by (simp split: prod.splits option.splits)
  have b: "snd (fst (exec_Find c ?q w1)) = None \<longrightarrow>
           fst (Page c r ctx page pageSize scopes w) =
             (\<lparr>Items = fst (fst (exec_Find c ?q w1)), Total = tot, PageNo = normPage page,
                PageSize = normPageSize pageSize,
                HasNext = (normPage page * normPageSize pageSize <s tot)\<rparr>, None)"
    unfolding page by (simp split: prod.splits option.splits)
  have "let page' = normPage page; pageSize' = normPageSize pageSize;
            q = sc c r ctx (scopes @ [Limit c pageSize', Offset c ((page' - 1) * pageSize')])
        in q = db_Offset c ((page' - 1) * pageSize') (db_Limit c pageSize' (sc c r ctx scopes))
            \<and> snd (Page c r ctx page pageSize scopes w) = snd (exec_Find c q w1)
            \<and> calls (snd (Page c r ctx page pageSize scopes w)) =
                calls w @ [CallCount (sc c r ctx scopes), CallFind q]
            \<and> (snd (fst (exec_Find c q w1)) = None \<longrightarrow>
                 fst (Page c r ctx page pageSize scopes w) =
                   (\<lparr>Items = fst (fst (exec_Find c q w1)), Total = tot, PageNo = page',
                      PageSize = pageSize', HasNext = (page' * pageSize' <s tot)\<rparr>, None))"
    unfolding Let_def q using a b fnd by simp
  then show ?thesis
    unfolding normPage_def normPageSize_def .
qed

text \<open>Page 1 of size 10 of the rows with key 2, on the reference table.\<close>

theorem Page_two_queries_witness:
  "exec_Count ref_gorm (sc ref_gorm ref_repo () [where_id 2]) ref_world =
     ((1, None), \<lparr>store = store ref_world,
                   calls = [CallCount (ref_db\<lparr>q_model := True, q_where := [2]\<rparr>)]\<rparr>)
   \<and> Page ref_gorm ref_repo () 1 10 [where_id 2] ref_world =
     ((\<lparr>Items = [(2, ''bob'')], Total = 1, PageNo = 1, PageSize = 10, HasNext = False\<rparr>, None),
      \<lparr>store = store ref_world,
        calls = [CallCount (ref_db\<lparr>q_model := True, q_where := [2]\<rparr>),
                 CallFind (ref_db\<lparr>q_model := True, q_where := [2], q_limit := Some 10,
                                  q_offset := Some 0\<rparr>)]\<rparr>)"
proof -
  let ?w1 = "\<lparr>store = store ref_world,
               calls = [CallCount (ref_db\<lparr>q_model := True, q_where := [2]\<rparr>)]\<rparr>"
  have h: "exec_Count ref_gorm (sc ref_gorm ref_repo () [where_id 2]) ref_world =
             ((1, None), ?w1)"
    by (simp add: sc_def exec_defs ref_defs)
  have f: "exec_Find ref_gorm
             (ref_db\<lparr>q_model := True, q_where := [2], q_limit := Some 10, q_offset := Some 0\<rparr>)
             ?w1 =
           (([(2, ''bob'')], None),
            \<lparr>store = store ref_world,
              calls = [CallCount (ref_db\<lparr>q_model := True, q_where := [2]\<rparr>),
                       CallFind (ref_db\<lparr>q_model := True, q_where := [2], q_limit := Some 10,
                                        q_offset := Some 0\<rparr>)]\<rparr>)"
    by (simp add: exec_defs ref_defs word_sless_alt word_sle_eq)
  have q: "sc ref_gorm ref_repo () ([where_id 2] @ [Limit ref_gorm 10, Offset ref_gorm 0]) =
            ref_db\<lparr>q_model := True, q_where := [2], q_limit := Some 10, q_offset := Some 0\<rparr>"
    by (simp add: sc_def Limit_def Offset_def ref_defs)
  show ?thesis
    using h f q Page_two_queries [OF h, of 1 10]
    by (simp add: Let_def word_sless_alt word_sle_eq prod_eq_iff)
qed

text \<open>When the count fails, \<^verbatim>\<open>Page\<close> stops there with the error: one finisher ran.\<close>

lemma Page_count_fails:
  assumes "exec_Count c (sc c r ctx scopes) w = ((tot, Some e), w1)"
  shows "Page c r ctx page pageSize scopes w = ((PageResult_zero, Some (Collaborator e)), w1)"
    and "calls w1 = calls w @ [CallCount (sc c r ctx scopes)]"
  using assms
  by (auto simp: Page_unfold Count_def exec_Count_def split: prod.splits)

subsection \<open>Count and Exists\<close>



text \<open>
  On the reference collaborator, for scopes that leave no error and no offset on the
  query, \<^verbatim>\<open>Exists\<close> is true exactly when some row of the table meets the
  conditions of the scopes.
\<close>

lemma ref_limited_count:
  assumes "q_error q = None" and "q_offset q = None"
  shows "db_Count ref_gorm (db_Limit ref_gorm 1 q) rows =
           ((word_of_nat (length (take 1 (matching q rows))), None), rows)"
  using assms
  by (simp add: ref_gorm_def window_def bound_def matching_def word_sless_alt)

lemma Exists_on_reference:
  assumes "q_error (sc ref_gorm r () scopes) = None"
    and "q_offset (sc ref_gorm r () scopes) = None"
  shows "fst (Exists ref_gorm r () scopes w) =
           (matching (sc ref_gorm r () scopes) (store w) \<noteq> [], None)"
proof -
  have one: "(0 :: 64 word) <s word_of_nat (min (length xs) (Suc 0)) \<longleftrightarrow> xs \<noteq> []"
    for xs :: "row list"
    by (cases xs) (simp_all add: word_sless_alt)
  show ?thesis
    by (simp add: Exists_def exec_Count_def ref_limited_count [OF assms] one)
qed

lemma Exists_no_match:
  "fst (Exists ref_gorm ref_repo () [where_id 9] ref_world) = (False, None)"
  by (simp add: Exists_def sc_def exec_defs ref_defs word_sless_alt word_sle_eq)

end
